theory Spec2Isabelle
  imports Complex_Main
begin

section \<open>Errors\<close>

text \<open>
  The exceptions that can leave the functions of \<^verbatim>\<open>poc_binance_V4.py\<close>:
  \<^verbatim>\<open>IndexError\<close> (indexing an empty string or beyond the end of an array),
  \<^verbatim>\<open>ValueError\<close> (raised by \<^verbatim>\<open>parse_interval_to_ms\<close>, by NumPy and by
  \<^verbatim>\<open>datetime.fromtimestamp\<close>), \<^verbatim>\<open>OverflowError\<close> and \<^verbatim>\<open>OSError\<close> (raised by the
  division and by \<^verbatim>\<open>datetime.fromtimestamp\<close> in the debug message) and
  \<^verbatim>\<open>requests.exceptions.RequestException\<close> (raised by the HTTP call).
\<close>

datatype py_error = IndexError | ValueError | OverflowError | OSError | RequestException

section \<open>The built-in \<^verbatim>\<open>int(str)\<close>\<close>

text \<open>
  A Python \<^verbatim>\<open>str\<close> is modelled as a \<^typ>\<open>string\<close>, one \<^typ>\<open>char\<close> per code
  point; the model covers the strings whose code points are below 256.

  In base 10, \<^verbatim>\<open>int(s)\<close> skips leading white space, reads an optional sign, then a run
  of decimal digits in which single underscores may separate digits, skips
  trailing white space and must then be at the end of the string. Below code
  point 256 the white space is tab, line feed, vertical tab, form feed, carriage
  return, space, and the code points 0x85 and 0xA0. The interpreter refuses (with
  \<^verbatim>\<open>ValueError\<close>) a literal of more than \<^verbatim>\<open>max_str_digits\<close> digits when that limit
  is positive and the literal has more than 640 digits; the limit is a parameter
  here (4300 by default in CPython 3.11, 0 when the check is off or absent).
\<close>

definition py_isspace :: "char \<Rightarrow> bool" where
  "py_isspace c = ((of_char c :: nat) \<in> {9, 10, 11, 12, 13, 32, 133, 160})"

definition py_isdigit :: "char \<Rightarrow> bool" where
  "py_isdigit c = (48 \<le> (of_char c :: nat) \<and> (of_char c :: nat) \<le> 57)"

definition digit_value :: "char \<Rightarrow> int" where
  "digit_value c = int (of_char c) - 48"

text \<open>The run of digits and underscores: it starts and ends with a digit and has no two
  underscores in a row.\<close>

fun valid_digit_run :: "string \<Rightarrow> bool" where
  "valid_digit_run [] = False"
| "valid_digit_run [c] = py_isdigit c"
| "valid_digit_run (c # d # cs) =
     (if py_isdigit c then valid_digit_run (d # cs)
      else c = CHR ''_'' \<and> py_isdigit d \<and> valid_digit_run (d # cs))"

definition digits_value :: "string \<Rightarrow> int" where
  "digits_value ds = foldl (\<lambda>acc c. acc * 10 + digit_value c) 0 ds"

definition py_int :: "nat \<Rightarrow> string \<Rightarrow> int option" where
  "py_int max_str_digits s =
     (let s1 = dropWhile py_isspace s;
          negative = (s1 \<noteq> [] \<and> hd s1 = CHR ''-'');
          s2 = (if s1 \<noteq> [] \<and> (hd s1 = CHR ''+'' \<or> hd s1 = CHR ''-'') then tl s1 else s1);
          run = takeWhile (\<lambda>c. py_isdigit c \<or> c = CHR ''_'') s2;
          rest = dropWhile (\<lambda>c. py_isdigit c \<or> c = CHR ''_'') s2;
          digits = filter py_isdigit run
      in if run = [] \<or> \<not> py_isdigit (hd run) \<or> \<not> valid_digit_run run then None
         else if 0 < max_str_digits \<and> 640 < length digits \<and> max_str_digits < length digits
           then None
         else if dropWhile py_isspace rest \<noteq> [] then None
         else Some (if negative then - digits_value digits else digits_value digits))"

section \<open>\<^verbatim>\<open>parse_interval_to_ms\<close>\<close>

text \<open>
  \<^verbatim>\<open>interval[-1]\<close> raises \<^verbatim>\<open>IndexError\<close> on the empty string, before anything else
  is looked at. \<^verbatim>\<open>int(interval[:-1])\<close> raises \<^verbatim>\<open>ValueError\<close>, which is caught and
  raised again as a \<^verbatim>\<open>ValueError\<close> with another message. Then the unit is tested
  against \<^verbatim>\<open>'m'\<close>, \<^verbatim>\<open>'h'\<close>, \<^verbatim>\<open>'d'\<close> in this order, and any other unit raises
  \<^verbatim>\<open>ValueError\<close>.
\<close>

definition parse_interval_to_ms :: "nat \<Rightarrow> string \<Rightarrow> py_error + int" where
  "parse_interval_to_ms max_str_digits interval =
     (if interval = [] then Inl IndexError
      else
        let unit = last interval in
        case py_int max_str_digits (butlast interval) of
          None \<Rightarrow> Inl ValueError
        | Some v \<Rightarrow>
            if unit = CHR ''m'' then Inr (v * 60 * 1000)
            else if unit = CHR ''h'' then Inr (v * 60 * 60 * 1000)
            else if unit = CHR ''d'' then Inr (v * 24 * 60 * 60 * 1000)
            else Inl ValueError)"

section \<open>Klines and the page provider\<close>

text \<open>
  A kline is a row of the JSON answer; the program reads three of its positions:
  \<^verbatim>\<open>KLINE_OPEN_TIME_INDEX = 0\<close>, \<^verbatim>\<open>KLINE_CLOSE_PRICE_INDEX = 4\<close> and
  \<^verbatim>\<open>KLINE_VOLUME_INDEX = 5\<close>. The open time is an integer; the close price and
  the volume are the numbers that the JSON answer writes, before any conversion
  to double precision.
\<close>

record kline =
  open_time :: int
  close_price :: real
  volume :: real

text \<open>The parameters of one HTTP request, as the dictionary \<^verbatim>\<open>params\<close> holds them
  (keys \<^verbatim>\<open>symbol\<close>, \<^verbatim>\<open>interval\<close>, \<^verbatim>\<open>startTime\<close>, \<^verbatim>\<open>endTime\<close>, \<^verbatim>\<open>limit\<close>).\<close>

record request =
  req_symbol :: string
  req_interval :: string
  startTime :: int
  endTime :: int
  req_limit :: nat

text \<open>
  \<^verbatim>\<open>requests.get\<close>, \<^verbatim>\<open>raise_for_status\<close> and \<^verbatim>\<open>response.json\<close> together are the
  page provider: from its own state and the request it gives an exception or a
  page of klines, and a new state.
\<close>

type_synonym response = "py_error + kline list"

type_synonym 's provider = "'s \<Rightarrow> request \<Rightarrow> response \<times> 's"

section \<open>\<^verbatim>\<open>get_binance_klines\<close>\<close>

text \<open>
  The \<^verbatim>\<open>while\<close> loop. Its state is the provider's state, \<^verbatim>\<open>current_time\<close> and
  \<^verbatim>\<open>klines\<close>; the model also keeps the list of the requests made with the answer to
  each, which is the effect of the loop on the outside. The loop may run forever:
  the value \<open>None\<close> stands for a call that does not return.

  The last statement of the body builds the message of \<^verbatim>\<open>logging.debug\<close> with
  \<^verbatim>\<open>datetime.fromtimestamp(current_time / 1000)\<close>. The message is built whatever
  the log level and outside any \<^verbatim>\<open>try\<close>, so an exception of the division or of
  \<^verbatim>\<open>fromtimestamp\<close> leaves the function, after the page was added to \<^verbatim>\<open>klines\<close>.
  Which timestamps raise, and what, depends on the platform and on its local
  time zone: \<open>fromtimestamp\<close> is a parameter, which gives for the new value of
  \<^verbatim>\<open>current_time\<close> (in milliseconds) the exception raised, or \<open>None\<close> when the date
  is formed.
\<close>

partial_function (option) fetch_loop ::
  "(int \<Rightarrow> py_error option) \<Rightarrow> 's provider \<Rightarrow> string \<Rightarrow> string \<Rightarrow> int \<Rightarrow> int \<Rightarrow> nat \<Rightarrow>
   's \<Rightarrow> int \<Rightarrow> kline list \<Rightarrow> (request \<times> response) list \<Rightarrow>
   ((py_error + kline list) \<times> 's \<times> (request \<times> response) list) option"
where
  "fetch_loop fromtimestamp provider symb itv interval_ms end_time page_limit s current_time
     klines calls =
     (if current_time < end_time then
        (let params = \<lparr>req_symbol = symb, req_interval = itv, startTime = current_time,
                         endTime = end_time, req_limit = page_limit\<rparr>
         in case provider s params of
              (Inl e, s') \<Rightarrow> Some (Inl e, s', calls @ [(params, Inl e)])
            | (Inr data, s') \<Rightarrow>
                if data = [] then Some (Inr klines, s', calls @ [(params, Inr data)])
                else
                  (case fromtimestamp (open_time (last data) + interval_ms) of
                     Some e \<Rightarrow> Some (Inl e, s', calls @ [(params, Inr data)])
                   | None \<Rightarrow>
                       fetch_loop fromtimestamp provider symb itv interval_ms end_time
                         page_limit s' (open_time (last data) + interval_ms) (klines @ data)
                         (calls @ [(params, Inr data)])))
      else Some (Inr klines, s, calls))"

declare fetch_loop.simps [code]

text \<open>
  The function: the interval is parsed first (an exception there leaves the
  function before any request), then the loop starts at \<^verbatim>\<open>start_time\<close> with no
  klines and \<^verbatim>\<open>limit = 1000\<close>.
\<close>

definition get_binance_klines ::
  "(int \<Rightarrow> py_error option) \<Rightarrow> 's provider \<Rightarrow> nat \<Rightarrow> 's \<Rightarrow> string \<Rightarrow> string \<Rightarrow> int \<Rightarrow> int \<Rightarrow>
   ((py_error + kline list) \<times> 's \<times> (request \<times> response) list) option"
where
  "get_binance_klines fromtimestamp provider max_str_digits s symb itv start_time end_time =
     (case parse_interval_to_ms max_str_digits itv of
        Inl e \<Rightarrow> Some (Inl e, s, [])
      | Inr interval_ms \<Rightarrow>
          fetch_loop fromtimestamp provider symb itv interval_ms end_time 1000 s start_time
            [] [])"

text \<open>
  The handler of \<^verbatim>\<open>main\<close>:
  \<^verbatim>\<open>except (ValueError, requests.exceptions.RequestException)\<close> logs the error and
  exits with status 1; any other exception is not caught there.
\<close>

definition main_catches :: "py_error \<Rightarrow> bool" where
  "main_catches e = (e = ValueError \<or> e = RequestException)"

section \<open>NumPy\<close>

text \<open>
  The arrays of NumPy hold doubles. A double is represented here by the real
  number it denotes, so the model covers the computations without infinities
  and without NaN. NumPy is a library the program calls, and what it computes
  depends on the rounding of every operation; its numerical part is a
  parameter:
  \<^item> \<open>float64\<close> is the conversion of one number by
    \<^verbatim>\<open>np.array(klines, dtype=np.float64)\<close>;
  \<^item> \<open>histogram_core a n weights\<close> is what \<^verbatim>\<open>np.histogram(a, bins=n, weights=weights)\<close>
    does once \<^verbatim>\<open>n\<close> is known to be at least 1: an exception, or the accumulated
    weights of the bins and the edges of the bins;
  \<^item> \<open>float_add\<close> and \<open>float_div\<close> are the addition and the division of doubles.
\<close>

record numpy =
  float64 :: "real \<Rightarrow> real"
  histogram_core :: "real list \<Rightarrow> nat \<Rightarrow> real list \<Rightarrow> py_error + (real list \<times> real list)"
  float_add :: "real \<Rightarrow> real \<Rightarrow> real"
  float_div :: "real \<Rightarrow> real \<Rightarrow> real"

text \<open>
  With an integer \<^verbatim>\<open>bins\<close>, \<^verbatim>\<open>np.histogram\<close> raises \<^verbatim>\<open>ValueError\<close> when \<^verbatim>\<open>bins < 1\<close>,
  before it looks at the data.
\<close>

definition histogram ::
  "(real list \<Rightarrow> nat \<Rightarrow> real list \<Rightarrow> py_error + (real list \<times> real list)) \<Rightarrow>
   real list \<Rightarrow> int \<Rightarrow> real list \<Rightarrow> py_error + (real list \<times> real list)"
where
  "histogram core a bins weights =
     (if bins < 1 then Inl ValueError else core a (nat bins) weights)"

text \<open>
  \<^verbatim>\<open>np.argmax\<close> gives the index of the first occurrence of the maximum, and raises
  \<^verbatim>\<open>ValueError\<close> on an empty array. \<open>argmax_from xs i best_i best\<close> scans \<open>xs\<close>, whose
  first element has index \<open>i\<close>, with the best index and value so far.
\<close>

fun argmax_from :: "real list \<Rightarrow> nat \<Rightarrow> nat \<Rightarrow> real \<Rightarrow> nat" where
  "argmax_from [] i best_i best = best_i"
| "argmax_from (x # xs) i best_i best =
     (if best < x then argmax_from xs (Suc i) i x else argmax_from xs (Suc i) best_i best)"

definition argmax :: "real list \<Rightarrow> py_error + nat" where
  "argmax xs = (case xs of [] \<Rightarrow> Inl ValueError | x # rest \<Rightarrow> Inr (argmax_from rest 1 0 x))"

section \<open>\<^verbatim>\<open>calculate_poc\<close>\<close>

text \<open>
  The empty list is answered with \<^verbatim>\<open>0.0\<close> before NumPy is reached. Otherwise the
  close prices and the volumes are converted to doubles, the histogram is
  computed, and the result is the sum of the two edges of the first bin of
  greatest weight, divided by 2, in doubles. Reading an edge beyond the end of
  the array of edges raises \<^verbatim>\<open>IndexError\<close>.
\<close>

definition calculate_poc :: "numpy \<Rightarrow> kline list \<Rightarrow> int \<Rightarrow> py_error + real" where
  "calculate_poc np klines bins =
     (if klines = [] then Inr 0
      else
        let precios = map (\<lambda>k. float64 np (close_price k)) klines;
            volumenes = map (\<lambda>k. float64 np (volume k)) klines
        in case histogram (histogram_core np) precios bins volumenes of
             Inl e \<Rightarrow> Inl e
           | Inr (hist, edges) \<Rightarrow>
               (case argmax hist of
                  Inl e \<Rightarrow> Inl e
                | Inr idx_poc \<Rightarrow>
                    if idx_poc + 1 < length edges
                    then Inr (float_div np
                                (float_add np (edges ! idx_poc) (edges ! (idx_poc + 1))) 2)
                    else Inl IndexError))"

section \<open>Notions used to state the properties\<close>

subsection \<open>Page providers\<close>

text \<open>The request that the loop makes when \<^verbatim>\<open>current_time\<close> has a given value.\<close>

definition request_at :: "string \<Rightarrow> string \<Rightarrow> int \<Rightarrow> nat \<Rightarrow> int \<Rightarrow> request" where
  "request_at symb itv end_time page_limit current_time =
     \<lparr>req_symbol = symb, req_interval = itv, startTime = current_time,
      endTime = end_time, req_limit = page_limit\<rparr>"





text \<open>
  The value of \<^verbatim>\<open>current_time\<close> after a list of calls, from its value before them:
  a page that is not empty moves it to the open time of its last kline plus the
  step, any other answer leaves it.
\<close>

fun cursor_after :: "int \<Rightarrow> int \<Rightarrow> (request \<times> response) list \<Rightarrow> int" where
  "cursor_after current_time interval_ms [] = current_time"
| "cursor_after current_time interval_ms (c # cs) =
     cursor_after
       (case snd c of
          Inr data \<Rightarrow> if data = [] then current_time else open_time (last data) + interval_ms
        | Inl e \<Rightarrow> current_time)
       interval_ms cs"


text \<open>
  The loop stops exactly at an empty page or when the cursor has reached the end:
  every call is the request of the loop at the cursor of that moment, and that
  cursor is below \<^verbatim>\<open>end_time\<close>; every call but the last is answered with a page
  that is not empty, after which the date of the debug message is formed; and
  when klines are returned, either the last answer is an empty page, or the
  cursor after all the calls is not below \<^verbatim>\<open>end_time\<close> (and, if a call was made,
  the last answer is a page that is not empty, after which the date is formed).
  The only other ways out are exceptions: that of the provider, which is the
  last answer then, and that of the date of the debug message after the last
  page.
\<close>

definition stops_exactly ::
  "(int \<Rightarrow> py_error option) \<Rightarrow> string \<Rightarrow> string \<Rightarrow> int \<Rightarrow> int \<Rightarrow> nat \<Rightarrow> int \<Rightarrow>
   py_error + kline list \<Rightarrow> (request \<times> response) list \<Rightarrow> bool"
where
  "stops_exactly fromtimestamp symb itv interval_ms end_time page_limit start_time r calls =
     ((\<forall>i<length calls.
         fst (calls ! i) =
           request_at symb itv end_time page_limit
             (cursor_after start_time interval_ms (take i calls)) \<and>
         cursor_after start_time interval_ms (take i calls) < end_time \<and>
         (Suc i < length calls \<longrightarrow>
            (\<exists>data. snd (calls ! i) = Inr data \<and> data \<noteq> [] \<and>
               fromtimestamp (cursor_after start_time interval_ms (take (Suc i) calls)) = None))) \<and>
      (case r of
         Inr klines \<Rightarrow>
           calls \<noteq> [] \<and> snd (last calls) = Inr [] \<or>
           end_time \<le> cursor_after start_time interval_ms calls \<and>
           (calls \<noteq> [] \<longrightarrow>
              (\<exists>data. snd (last calls) = Inr data \<and> data \<noteq> []) \<and>
              fromtimestamp (cursor_after start_time interval_ms calls) = None)
       | Inl e \<Rightarrow>
           calls \<noteq> [] \<and>
           (snd (last calls) = Inl e \<or>
            (\<exists>data. snd (last calls) = Inr data \<and> data \<noteq> []) \<and>
            fromtimestamp (cursor_after start_time interval_ms calls) = Some e)))"

subsection \<open>Instances for the examples\<close>

text \<open>
  \<^verbatim>\<open>datetime.fromtimestamp(current_time / 1000)\<close> as CPython 3.11 evaluates it on
  64-bit Linux with UTC as the local time zone: the dates from 0001-01-02 to
  the end of the year 9999 are formed, a year out of range raises
  \<^verbatim>\<open>ValueError\<close>, a failure of the C function \<^verbatim>\<open>localtime\<close> raises \<^verbatim>\<open>OSError\<close>, and a
  timestamp too large for the type \<^verbatim>\<open>time_t\<close> or for a double raises
  \<^verbatim>\<open>OverflowError\<close>.
\<close>

definition fromtimestamp_linux_utc :: "int \<Rightarrow> py_error option" where
  "fromtimestamp_linux_utc ms =
     (if - 62135510400000 \<le> ms \<and> ms < 253402300800000 then None
      else if - 67768040609740804000 \<le> ms \<and> ms < 67768036191676796000 then Some ValueError
      else if - 9223372036854776832000 \<le> ms \<and> ms < 9223372036854775296000 then Some OSError
      else Some OverflowError)"



text \<open>A provider that answers every call with the same page of one kline, opening
  at time 0.\<close>

definition stale_page :: "unit provider" where
  "stale_page u req = (Inr [\<lparr>open_time = 0, close_price = 1, volume = 1\<rparr>], ())"

text \<open>
  Two records with close prices 1 and 3 and the same volume 4. With two bins
  \<^verbatim>\<open>np.histogram\<close> gives the weights 4 and 4 and the edges 1, 2 and 3: all the
  numbers are small integers, on which the operations of doubles are exact.
  \<open>numpy_on_tie_series\<close> is NumPy on this input.
\<close>

definition tie_series :: "kline list" where
  "tie_series =
     [\<lparr>open_time = 0, close_price = 1, volume = 4\<rparr>,
      \<lparr>open_time = 60000, close_price = 3, volume = 4\<rparr>]"

definition numpy_on_tie_series :: numpy where
  "numpy_on_tie_series =
     \<lparr>float64 = (\<lambda>x. x),
      histogram_core = (\<lambda>a n weights. Inr ([4, 4], [1, 2, 3])),
      float_add = (+),
      float_div = (/)\<rparr>"

section \<open>Results on \<^verbatim>\<open>parse_interval_to_ms\<close>\<close>

lemma parse_interval_to_ms_unit:
  assumes "py_int max_str_digits p = Some v"
  shows "parse_interval_to_ms max_str_digits (p @ [CHR ''m'']) = Inr (v * 60000)"
    and "parse_interval_to_ms max_str_digits (p @ [CHR ''h'']) = Inr (v * 3600000)"
    and "parse_interval_to_ms max_str_digits (p @ [CHR ''d'']) = Inr (v * 86400000)"
  using assms by (simp_all add: parse_interval_to_ms_def)

lemma parse_interval_to_ms_invalid:
  assumes "token \<noteq> []"
    and "py_int max_str_digits (butlast token) = None \<or>
         last token \<notin> {CHR ''m'', CHR ''h'', CHR ''d''}"
  shows "parse_interval_to_ms max_str_digits token = Inl ValueError"
  using assms by (auto simp: parse_interval_to_ms_def Let_def split: option.splits)

lemma parse_interval_to_ms_examples:
  "parse_interval_to_ms 4300 ''1m'' = Inr 60000"
  "parse_interval_to_ms 4300 ''4h'' = Inr 14400000"
  "parse_interval_to_ms 4300 ''1d'' = Inr 86400000"
  "parse_interval_to_ms 4300 ''1x'' = Inl ValueError"
  "parse_interval_to_ms 4300 ''abc'' = Inl ValueError"
  by (simp_all add: parse_interval_to_ms_def py_int_def py_isspace_def py_isdigit_def
      digits_value_def digit_value_def)

lemma parse_interval_to_ms_Inr:
  assumes "parse_interval_to_ms max_str_digits token = Inr r"
  obtains v where "token \<noteq> []" and "py_int max_str_digits (butlast token) = Some v"
    and "last token = CHR ''m'' \<and> r = v * 60000 \<or>
         last token = CHR ''h'' \<and> r = v * 3600000 \<or>
         last token = CHR ''d'' \<and> r = v * 86400000"
  using assms
  by (auto simp: parse_interval_to_ms_def Let_def split: if_splits option.splits)

text \<open>
  C7. The empty token is one whose numeric prefix is not an integer and whose unit
  is none of \<open>m\<close>, \<open>h\<close>, \<open>d\<close>; on it \<^verbatim>\<open>parse_interval_to_ms\<close> does not raise
  \<^verbatim>\<open>ValueError\<close>, the exception that stands for an invalid interval, but
  \<^verbatim>\<open>IndexError\<close>, whatever the digit limit of the interpreter.
\<close>

theorem parse_interval_to_ms_empty_not_ValueError:
  "parse_interval_to_ms max_str_digits [] \<noteq> Inl ValueError \<and>
   parse_interval_to_ms max_str_digits [] = Inl IndexError"
  by (simp add: parse_interval_to_ms_def)

text \<open>
  C8, as the claim states it, fails: the token \<open>0m\<close> is parsed with success and
  the result is 0, which is not strictly positive.
\<close>

theorem parse_interval_to_ms_zero_counterexample:
  "parse_interval_to_ms 4300 ''0m'' = Inr 0 \<and> \<not> (0::int) < 0"
  by (simp add: parse_interval_to_ms_def py_int_def py_isspace_def py_isdigit_def
      digits_value_def digit_value_def)

text \<open>
  C8, amended. When \<^verbatim>\<open>parse_interval_to_ms\<close> succeeds on a token, the prefix of the
  token is an integer \<open>v\<close> for \<^verbatim>\<open>int\<close>, the result is \<open>v\<close> times 60000, 3600000 or
  86400000 according to the unit, and the result is strictly positive exactly
  when \<open>v\<close> is.
\<close>

theorem parse_interval_to_ms_sign:
  assumes "parse_interval_to_ms max_str_digits token = Inr r"
  shows "\<exists>v. py_int max_str_digits (butlast token) = Some v \<and>
           r \<in> {v * 60000, v * 3600000, v * 86400000} \<and> (0 < r \<longleftrightarrow> 0 < v)"
proof -
  from assms obtain v where v: "py_int max_str_digits (butlast token) = Some v"
    and r: "last token = CHR ''m'' \<and> r = v * 60000 \<or>
            last token = CHR ''h'' \<and> r = v * 3600000 \<or>
            last token = CHR ''d'' \<and> r = v * 86400000"
    by (rule parse_interval_to_ms_Inr)
  from r have "r \<in> {v * 60000, v * 3600000, v * 86400000}" by auto
  moreover from r have "0 < r \<longleftrightarrow> 0 < v" by (auto simp: zero_less_mult_iff)
  ultimately show ?thesis using v by blast
qed

theorem parse_interval_to_ms_sign_witness:
  "parse_interval_to_ms 4300 ''4h'' = Inr 14400000 \<and>
   (\<exists>v. py_int 4300 (butlast ''4h'') = Some v \<and>
      (14400000::int) \<in> {v * 60000, v * 3600000, v * 86400000} \<and>
      ((0::int) < 14400000 \<longleftrightarrow> 0 < v))"
proof -
  have h: "parse_interval_to_ms 4300 ''4h'' = Inr 14400000"
    by (simp add: parse_interval_to_ms_def py_int_def py_isspace_def py_isdigit_def
        digits_value_def digit_value_def)
  from parse_interval_to_ms_sign [OF h] h show ?thesis by blast
qed

text \<open>
  C10. On the empty string \<^verbatim>\<open>parse_interval_to_ms\<close> raises \<^verbatim>\<open>IndexError\<close>;
  \<^verbatim>\<open>get_binance_klines\<close> lets it through before any request is made, and the
  handler of \<^verbatim>\<open>main\<close>, which catches \<^verbatim>\<open>ValueError\<close> and \<^verbatim>\<open>RequestException\<close>,
  does not catch it.
\<close>

theorem empty_interval_IndexError_escapes:
  "parse_interval_to_ms max_str_digits [] = Inl IndexError \<and>
   get_binance_klines fromtimestamp provider max_str_digits s symb [] start_time end_time =
     Some (Inl IndexError, s, []) \<and>
   \<not> main_catches IndexError \<and> main_catches ValueError"
  by (simp add: parse_interval_to_ms_def get_binance_klines_def main_catches_def)

section \<open>Results on \<^verbatim>\<open>get_binance_klines\<close>\<close>

subsection \<open>One turn of the loop\<close>


lemma fetch_loop_error:
  assumes "current_time < end_time"
    and "provider s (request_at symb itv end_time page_limit current_time) = (Inl e, s')"
  shows "fetch_loop fromtimestamp provider symb itv interval_ms end_time page_limit s
     current_time klines calls =
     Some (Inl e, s', calls @ [(request_at symb itv end_time page_limit current_time, Inl e)])"
  using assms unfolding request_at_def by (subst fetch_loop.simps) simp




subsection \<open>The shape of a run\<close>



lemma stops_exactly_error:
  "current_time < end_time \<Longrightarrow>
   stops_exactly fromtimestamp symb itv interval_ms end_time page_limit current_time (Inl e)
     [(request_at symb itv end_time page_limit current_time, Inl e)]"
  by (simp add: stops_exactly_def)




subsection \<open>Termination with a provider that runs out of data\<close>


subsection \<open>Runs with a well-behaved provider\<close>



subsection \<open>Runs that never end\<close>

lemma fetch_loop_stuck:
  assumes ret: "fetch_loop fromtimestamp provider symb itv interval_ms end_time page_limit s
      current_time klines calls = Some y"
  shows "(\<forall>s req. \<exists>data s'. provider s req = (Inr data, s') \<and> data \<noteq> [] \<and>
               open_time (last data) + interval_ms < end_time \<and>
               fromtimestamp (open_time (last data) + interval_ms) = None) \<longrightarrow>
   current_time < end_time \<longrightarrow> False"
proof (rule fetch_loop.raw_induct [where P = "\<lambda>fromtimestamp provider symb itv interval_ms
      end_time page_limit s current_time klines calls y.
        (\<forall>s req. \<exists>data s'. provider s req = (Inr data, s') \<and> data \<noteq> [] \<and>
               open_time (last data) + interval_ms < end_time \<and>
               fromtimestamp (open_time (last data) + interval_ms) = None) \<longrightarrow>
        current_time < end_time \<longrightarrow> False", OF _ ret], goal_cases)
  case (1 f fromtimestamp provider symb itv interval_ms end_time page_limit s current_time
      klines calls y)
  let ?req = "\<lparr>req_symbol = symb, req_interval = itv, startTime = current_time,
           endTime = end_time, req_limit = page_limit\<rparr>"
  show ?case
  proof (intro impI)
    assume stuck: "\<forall>s req. \<exists>data s'. provider s req = (Inr data, s') \<and> data \<noteq> [] \<and>
               open_time (last data) + interval_ms < end_time \<and>
               fromtimestamp (open_time (last data) + interval_ms) = None"
      and lt: "current_time < end_time"
    from stuck obtain data s' where p: "provider s ?req = (Inr data, s')" and ne: "data \<noteq> []"
      and below: "open_time (last data) + interval_ms < end_time"
      and date: "fromtimestamp (open_time (last data) + interval_ms) = None"
      by blast
    from 1(2) lt p ne date have
      "f fromtimestamp provider symb itv interval_ms end_time page_limit s'
         (open_time (last data) + interval_ms) (klines @ data) (calls @ [(?req, Inr data)]) = Some y"
      by simp
    from 1(1) [OF this] stuck below show False by blast
  qed
qed

lemma fetch_loop_never_returns:
  assumes "\<forall>s req. \<exists>data s'. provider s req = (Inr data, s') \<and> data \<noteq> [] \<and>
               open_time (last data) + interval_ms < end_time \<and>
               fromtimestamp (open_time (last data) + interval_ms) = None"
    and "current_time < end_time"
  shows "fetch_loop fromtimestamp provider symb itv interval_ms end_time page_limit s
     current_time klines calls = None"
proof (cases "fetch_loop fromtimestamp provider symb itv interval_ms end_time page_limit s
     current_time klines calls")
  case None
  then show ?thesis .
next
  case (Some y)
  from fetch_loop_stuck [OF Some] assms show ?thesis by blast
qed

subsection \<open>The claims on the fetch loop\<close>




lemma parse_1m: "parse_interval_to_ms 4300 ''1m'' = Inr 60000"
  by (simp add: parse_interval_to_ms_def py_int_def py_isspace_def py_isdigit_def
      digits_value_def digit_value_def)

lemma parse_1h: "parse_interval_to_ms 4300 ''1h'' = Inr 3600000"
  by (simp add: parse_interval_to_ms_def py_int_def py_isspace_def py_isdigit_def
      digits_value_def digit_value_def)





text \<open>
  C2, as the claim states it, fails: no exception is raised when the cursor does
  not move forward. The provider \<open>stale_page\<close> answers every call with the kline
  that opens at 0; with the interval \<open>1m\<close> the cursor is 60000 after the first
  page and 60000 again after every other page, which is below the end 120000
  and a time whose date is formed, and the call never returns.
\<close>

theorem get_binance_klines_stale_counterexample:
  "cursor_after 0 60000
     [(request_at ''BTCUSDT'' ''1m'' 120000 1000 0,
       fst (stale_page () (request_at ''BTCUSDT'' ''1m'' 120000 1000 0)))] = 60000 \<and>
   cursor_after 60000 60000
     [(request_at ''BTCUSDT'' ''1m'' 120000 1000 60000,
       fst (stale_page () (request_at ''BTCUSDT'' ''1m'' 120000 1000 60000)))] = 60000 \<and>
   fromtimestamp_linux_utc 60000 = None \<and>
   get_binance_klines fromtimestamp_linux_utc stale_page 4300 () ''BTCUSDT'' ''1m'' 0 120000 =
     None"
proof -
  have "fetch_loop fromtimestamp_linux_utc stale_page ''BTCUSDT'' ''1m'' 60000 120000 1000 ()
      0 [] [] = None"
    by (rule fetch_loop_never_returns)
      (simp_all add: stale_page_def fromtimestamp_linux_utc_def)
  then show ?thesis
    by (simp add: get_binance_klines_def parse_1m stale_page_def fromtimestamp_linux_utc_def)
qed

text \<open>
  C2, amended. The loop checks no progress and raises nothing of its own: when
  \<^verbatim>\<open>start_time\<close> is below \<^verbatim>\<open>end_time\<close> and every answer of the provider is a page that
  is not empty, whose last open time plus the step is below \<^verbatim>\<open>end_time\<close> and is a
  time whose date the debug message can form (as with pages whose open times do
  not increase), \<^verbatim>\<open>get_binance_klines\<close> never returns.
\<close>

theorem get_binance_klines_no_progress_check:
  assumes "parse_interval_to_ms max_str_digits itv = Inr interval_ms"
    and "start_time < end_time"
    and "\<forall>s req. \<exists>data s'. provider s req = (Inr data, s') \<and> data \<noteq> [] \<and>
           open_time (last data) + interval_ms < end_time \<and>
           fromtimestamp (open_time (last data) + interval_ms) = None"
  shows "get_binance_klines fromtimestamp provider max_str_digits s symb itv start_time
     end_time = None"
  using fetch_loop_never_returns [OF assms(3,2)] assms(1)
  by (simp add: get_binance_klines_def)

theorem get_binance_klines_no_progress_check_witness:
  "parse_interval_to_ms 4300 ''1h'' = Inr 3600000 \<and> (0::int) < 10000000 \<and>
   (\<forall>s req. \<exists>data s'. stale_page s req = (Inr data, s') \<and> data \<noteq> [] \<and>
      open_time (last data) + 3600000 < 10000000 \<and>
      fromtimestamp_linux_utc (open_time (last data) + 3600000) = None) \<and>
   get_binance_klines fromtimestamp_linux_utc stale_page 4300 () ''BTCUSDT'' ''1h'' 0 10000000 =
     None"
proof -
  have lt: "(0::int) < 10000000" by simp
  have stuck: "\<forall>s req. \<exists>data s'. stale_page s req = (Inr data, s') \<and> data \<noteq> [] \<and>
      open_time (last data) + 3600000 < 10000000 \<and>
      fromtimestamp_linux_utc (open_time (last data) + 3600000) = None"
    by (simp add: stale_page_def fromtimestamp_linux_utc_def)
  from get_binance_klines_no_progress_check [OF parse_1h lt stuck] parse_1h lt stuck
  show ?thesis by blast
qed



section \<open>Results on \<^verbatim>\<open>calculate_poc\<close>\<close>

subsection \<open>The first maximum\<close>

lemma argmax_from_first_max:
  assumes "best_i < length pre" and "best = pre ! best_i"
    and "\<forall>j<length pre. pre ! j \<le> best"
    and "\<forall>j<best_i. pre ! j < best"
  shows "argmax_from xs (length pre) best_i best < length (pre @ xs) \<and>
     (\<forall>j<length (pre @ xs). (pre @ xs) ! j \<le> (pre @ xs) ! argmax_from xs (length pre) best_i best) \<and>
     (\<forall>j<argmax_from xs (length pre) best_i best.
        (pre @ xs) ! j < (pre @ xs) ! argmax_from xs (length pre) best_i best)"
  using assms
proof (induction xs arbitrary: pre best_i best)
  case Nil
  then show ?case by simp
next
  case (Cons x xs)
  let ?pre = "pre @ [x]"
  have len: "Suc (length pre) = length ?pre" by simp
  have app: "pre @ x # xs = ?pre @ xs" by simp
  show ?case
  proof (cases "best < x")
    case True
    have a: "length pre < length ?pre" by simp
    have b: "x = ?pre ! length pre" by simp
    have c: "\<forall>j<length ?pre. ?pre ! j \<le> x"
      using Cons.prems(3) True by (auto simp: nth_append less_Suc_eq)
    have d: "\<forall>j<length pre. ?pre ! j < x"
      using Cons.prems(3) True by (auto simp: nth_append)
    from Cons.IH [OF a b c d] True show ?thesis
      unfolding app by (simp del: append_assoc)
  next
    case False
    have a: "best_i < length ?pre" using Cons.prems(1) by simp
    have b: "best = ?pre ! best_i" using Cons.prems(1,2) by (simp add: nth_append)
    have c: "\<forall>j<length ?pre. ?pre ! j \<le> best"
      using Cons.prems(3) False by (auto simp: nth_append less_Suc_eq)
    have d: "\<forall>j<best_i. ?pre ! j < best"
      using Cons.prems(1,4) by (auto simp: nth_append)
    from Cons.IH [OF a b c d] False show ?thesis
      unfolding app by (simp del: append_assoc)
  qed
qed

lemma argmax_first_max:
  assumes "xs \<noteq> []"
  obtains k where "argmax xs = Inr k" and "k < length xs"
    and "\<forall>j<length xs. xs ! j \<le> xs ! k" and "\<forall>j<k. xs ! j < xs ! k"
proof -
  from assms obtain x rest where xs: "xs = x # rest" by (cases xs) auto
  have "argmax_from rest (length [x]) 0 x < length ([x] @ rest) \<and>
     (\<forall>j<length ([x] @ rest). ([x] @ rest) ! j \<le> ([x] @ rest) ! argmax_from rest (length [x]) 0 x) \<and>
     (\<forall>j<argmax_from rest (length [x]) 0 x.
        ([x] @ rest) ! j < ([x] @ rest) ! argmax_from rest (length [x]) 0 x)"
    by (rule argmax_from_first_max) simp_all
  then show ?thesis using that [of "argmax_from rest 1 0 x"] xs
    by (simp add: argmax_def)
qed

subsection \<open>The bin that is chosen\<close>

text \<open>
  C5. On a series that is not empty, when \<^verbatim>\<open>np.histogram\<close> has returned the
  accumulated volumes \<open>hist\<close> of the \<^verbatim>\<open>bins\<close> bins and their \<^verbatim>\<open>bins + 1\<close> edges,
  \<^verbatim>\<open>calculate_poc\<close> returns the midpoint, computed in doubles, of a bin of maximal
  accumulated volume, and every bin that ties with it for the maximal volume
  has an index that is not lower, and, the edges being in ascending order, a
  low edge that is not lower. The accumulated volumes are those that NumPy
  computed, whatever their rounding; they are finite numbers. The result is a
  function of the series, of the number of bins and of NumPy, so two runs on
  the same input give the same result.
\<close>

theorem calculate_poc_tie_break:
  assumes "klines \<noteq> []"
    and "histogram (histogram_core np) (map (\<lambda>k. float64 np (close_price k)) klines) bins
           (map (\<lambda>k. float64 np (volume k)) klines) = Inr (hist, edges)"
    and "length hist = nat bins"
    and "length edges = Suc (nat bins)"
  shows "\<exists>idx<nat bins.
     calculate_poc np klines bins =
       Inr (float_div np (float_add np (edges ! idx) (edges ! Suc idx)) 2) \<and>
     (\<forall>j<nat bins. hist ! j \<le> hist ! idx) \<and>
     (\<forall>j<nat bins. hist ! j = hist ! idx \<longrightarrow>
        idx \<le> j \<and> (sorted edges \<longrightarrow> edges ! idx \<le> edges ! j))"
proof -
  from assms(2) have "1 \<le> bins" by (simp add: histogram_def split: if_splits)
  with assms(3) have ne: "hist \<noteq> []" by auto
  from argmax_first_max [OF ne] obtain k where k: "argmax hist = Inr k" "k < length hist"
    and mx: "\<forall>j<length hist. hist ! j \<le> hist ! k" and fst: "\<forall>j<k. hist ! j < hist ! k"
    by blast
  have res: "calculate_poc np klines bins =
       Inr (float_div np (float_add np (edges ! k) (edges ! Suc k)) 2)"
    using assms k by (simp add: calculate_poc_def Let_def)
  have tie: "k \<le> j \<and> (sorted edges \<longrightarrow> edges ! k \<le> edges ! j)"
    if "j < nat bins" "hist ! j = hist ! k" for j
  proof -
    have "\<not> j < k" using fst that(2) by auto
    then have le: "k \<le> j" by simp
    moreover have "edges ! k \<le> edges ! j" if "sorted edges"
      using that le \<open>j < nat bins\<close> assms(4) by (simp add: sorted_nth_mono)
    ultimately show ?thesis by simp
  qed
  from k(2) assms(3) have "k < nat bins" by simp
  with res mx tie assms(3) show ?thesis by auto
qed

theorem calculate_poc_tie_break_witness:
  "tie_series \<noteq> [] \<and>
   histogram (histogram_core numpy_on_tie_series)
     (map (\<lambda>k. float64 numpy_on_tie_series (close_price k)) tie_series) 2
     (map (\<lambda>k. float64 numpy_on_tie_series (volume k)) tie_series) = Inr ([4, 4], [1, 2, 3]) \<and>
   length [4, 4 :: real] = nat 2 \<and> length [1, 2, 3 :: real] = Suc (nat 2) \<and>
   calculate_poc numpy_on_tie_series tie_series 2 = Inr (3 / 2) \<and>
   (\<exists>idx<nat 2.
     calculate_poc numpy_on_tie_series tie_series 2 =
       Inr (float_div numpy_on_tie_series
              (float_add numpy_on_tie_series ([1, 2, 3] ! idx) ([1, 2, 3] ! Suc idx)) 2) \<and>
     (\<forall>j<nat 2. [4, 4 :: real] ! j \<le> [4, 4] ! idx) \<and>
     (\<forall>j<nat 2. [4, 4 :: real] ! j = [4, 4] ! idx \<longrightarrow>
        idx \<le> j \<and> (sorted [1, 2, 3 :: real] \<longrightarrow> [1, 2, 3 :: real] ! idx \<le> [1, 2, 3] ! j)))"
proof -
  have a: "tie_series \<noteq> []" by (simp add: tie_series_def)
  have b: "histogram (histogram_core numpy_on_tie_series)
     (map (\<lambda>k. float64 numpy_on_tie_series (close_price k)) tie_series) 2
     (map (\<lambda>k. float64 numpy_on_tie_series (volume k)) tie_series) = Inr ([4, 4], [1, 2, 3])"
    by (simp add: histogram_def numpy_on_tie_series_def)
  have c: "length [4, 4 :: real] = nat 2" by simp
  have d: "length [1, 2, 3 :: real] = Suc (nat 2)" by simp
  have e: "calculate_poc numpy_on_tie_series tie_series 2 = Inr (3 / 2)"
    by (simp add: calculate_poc_def histogram_def numpy_on_tie_series_def tie_series_def
        argmax_def Let_def)
  from calculate_poc_tie_break [OF a b c d] a b c d e show ?thesis by blast
qed

subsection \<open>The empty series\<close>

text \<open>
  C6. On the empty list \<^verbatim>\<open>calculate_poc\<close> returns 0.0 and raises nothing, for every
  number of bins and whatever NumPy does: also for \<^verbatim>\<open>bins < 1\<close>, where the
  histogram would raise \<^verbatim>\<open>ValueError\<close>, so the histogram is not computed.
\<close>

theorem calculate_poc_empty:
  "calculate_poc np [] bins = Inr 0 \<and> histogram core [] 0 [] = Inl ValueError \<and>
   calculate_poc np [] 0 = Inr 0"
  by (simp add: calculate_poc_def histogram_def)

end
